theory Spec2Isabelle
  imports Main
begin

section \<open>The trunkindexer Kaldi binding (src/trunkindexer/kaldi.cc)\<close>

text \<open>
  The file holds three functions: the log handler \<open>trap\<close>, the decoding routine
  \<open>basic\<close> and the Python entry point \<open>decode\<close>, around one process-wide string
  \<open>errlog\<close>. Everything else is a call into Kaldi, OpenFst or CPython. Those calls
  are not part of the repository; they are taken as a parameter, the record
  \<open>engine\<close>: each field says, for the arguments of one call, which messages the
  library logs while it runs and whether the call returns or throws a
  \<open>std::exception\<close>. The model covers the executions in which every library call
  does one of the two (a call that aborts the process is outside it).

  A run of \<open>basic\<close> is a value of type \<open>comp\<close>: the list of what happened, in order
  (each library call, and each message handed to the log handler), and how the run
  ended. \<open>basic\<close> never reads \<open>errlog\<close>; the handler is the only writer, so the
  buffer after a run is the buffer before it with \<open>trap\<close> applied to the logged
  messages in order, which is how \<open>decode\<close> threads it.
\<close>

subsection \<open>Strings handed to C interfaces\<close>

definition c_str :: "string \<Rightarrow> string" where
  \<comment> \<open>what a reader of \<open>s.c_str()\<close> sees: the bytes before the first NUL\<close>
  "c_str s = takeWhile (\<lambda>c. c \<noteq> CHR 0x00) s"

definition digit_char :: "nat \<Rightarrow> char" where
  "digit_char d = ''0123456789'' ! d"

function show_nat :: "nat \<Rightarrow> string" where
  "show_nat n = (if n < 10 then [digit_char n] else show_nat (n div 10) @ [digit_char (n mod 10)])"
  by pat_completeness auto
termination
  by (relation "measure (\<lambda>n. n)") auto

definition show_int :: "int \<Rightarrow> string" where
  \<comment> \<open>\<open>operator<<\<close> on an \<open>int32\<close>: decimal, with a sign when negative\<close>
  "show_int i = (if i < 0 then CHR ''-'' # show_nat (nat (- i)) else show_nat (nat i))"

subsection \<open>Log messages and the handler\<close>

datatype severity = kAssertFailed | kError | kWarning | kInfo | kVerbose nat

definition trap :: "severity \<Rightarrow> string \<Rightarrow> string \<Rightarrow> string" where
  \<comment> \<open>lines 17-26; the last argument and the result are \<open>errlog\<close> before and after\<close>
  "trap sev message buf =
     (case sev of
        kError \<Rightarrow> buf @ message
      | kAssertFailed \<Rightarrow> buf @ message
      | _ \<Rightarrow> buf)"

subsection \<open>What a call does: events and outcomes\<close>

text \<open>
  One event per statement of \<open>basic\<close> that leaves the file:
  \<open>EvSetLogHandler\<close> line 38; \<open>EvReadKaldiObject\<close> lines 76-79; \<open>EvReadModel\<close> the
  block of lines 83-94 (opening and reading \<open>final.mdl\<close>, the test modes, collapsing,
  the decodable info); \<open>EvReadFstKaldiGeneric\<close> line 96, which allocates \<open>decode_fst\<close>;
  \<open>EvReadText\<close> line 100, which allocates \<open>word_syms\<close>; \<open>EvWavReader\<close> line 104;
  \<open>EvAdaptationState\<close> lines 108-109; \<open>EvWavValue\<close> lines 110-111 (the wave and its
  first row, of \<open>Dim()\<close> samples); \<open>EvNewSession\<close> lines 113-119 (feature pipeline,
  decoder, timer); \<open>EvAcceptWaveform samp_offset num_samp\<close> lines 133-134;
  \<open>EvWaitUntil samp_offset\<close> line 137 (the argument is \<open>samp_offset / samp_freq\<close>, a
  floating-point quotient used for pacing only; the event keeps the numerator);
  \<open>EvInputFinished\<close> line 140; \<open>EvAdvanceDecoding\<close> line 143; \<open>EvFinalizeDecoding\<close>
  line 145; \<open>EvBestPath\<close> lines 147-160 (lattice, shortest path, conversion, linear
  symbol sequence); the two \<open>delete\<close>s of lines 170-171; and \<open>EvLog\<close> for a message the
  library hands to the installed handler. The option structures of lines 46-75 are
  constants passed to the library and have no event.
\<close>

datatype event =
    EvSetLogHandler
  | EvReadKaldiObject string
  | EvReadModel string
  | EvReadFstKaldiGeneric string
  | EvReadText string
  | EvWavReader string
  | EvAdaptationState
  | EvWavValue
  | EvNewSession
  | EvAcceptWaveform int int
  | EvWaitUntil int
  | EvInputFinished
  | EvAdvanceDecoding
  | EvFinalizeDecoding
  | EvBestPath
  | EvDelete_decode_fst
  | EvDelete_word_syms
  | EvLog severity string

datatype 'a outcome = Returns 'a | Throws string
  \<comment> \<open>\<open>Throws what\<close>: a \<open>std::exception\<close> \<open>e\<close> with \<open>e.what() = what\<close> leaves the call\<close>

type_synonym 'a comp = "event list \<times> 'a outcome"

type_synonym 'a reply = "(severity \<times> string) list \<times> 'a outcome"

type_synonym symtab = "int \<Rightarrow> string option"

definition ret :: "'a \<Rightarrow> 'a comp" where
  "ret x = ([], Returns x)"

definition bnd :: "'a comp \<Rightarrow> ('a \<Rightarrow> 'b comp) \<Rightarrow> 'b comp" where
  \<comment> \<open>sequencing: a thrown exception skips the rest\<close>
  "bnd m f =
     (case m of
        (tr, Throws what) \<Rightarrow> (tr, Throws what)
      | (tr, Returns x) \<Rightarrow> (case f x of (tr', r) \<Rightarrow> (tr @ tr', r)))"

definition tick :: "event \<Rightarrow> unit comp" where
  "tick ev = ([ev], Returns ())"

definition call :: "event \<Rightarrow> 'a reply \<Rightarrow> 'a comp" where
  \<comment> \<open>a library call: the call itself, then every message it logs, in order\<close>
  "call ev r = (ev # map (\<lambda>(sev, message). EvLog sev message) (fst r), snd r)"

text \<open>
  The libraries. \<open>'s\<close> is the state of the decoding session (feature pipeline and
  decoder), which the session calls update. \<open>ReadText\<close> returns \<open>None\<close> for the null
  pointer. \<open>WavValue\<close> returns \<open>data.Dim()\<close>. \<open>fatal_what\<close> is the \<open>what()\<close> of the
  exception that Kaldi's \<open>KALDI_ERR\<close> throws for a message (it depends on the Kaldi
  version). \<open>PyUnicode_FromString\<close> decodes a C string as UTF-8: it returns the new
  string, or fails with the error CPython sets. \<open>PyErr_undecodable\<close> is the error that
  \<open>PyErr_SetString\<close> leaves when its message cannot be decoded, given the exception
  asked for and the decoding error (the decoding error itself or the exception without
  a message, depending on the CPython version).
\<close>

datatype pyexc = RuntimeError | UnicodeDecodeError | TypeError

type_synonym pyerror = "pyexc \<times> string"

record 's engine =
  ReadKaldiObject :: "string \<Rightarrow> unit reply"
  ReadModel :: "string \<Rightarrow> unit reply"
  ReadFstKaldiGeneric :: "string \<Rightarrow> unit reply"
  ReadText :: "string \<Rightarrow> symtab option reply"
  WavReader :: "string \<Rightarrow> unit reply"
  AdaptationState :: "unit reply"
  WavValue :: "string \<Rightarrow> int reply"
  NewSession :: "'s reply"
  AcceptWaveform :: "'s \<Rightarrow> int \<Rightarrow> int \<Rightarrow> 's reply"
  InputFinished :: "'s \<Rightarrow> 's reply"
  AdvanceDecoding :: "'s \<Rightarrow> 's reply"
  FinalizeDecoding :: "'s \<Rightarrow> 's reply"
  BestPath :: "'s \<Rightarrow> int list reply"
  fatal_what :: "string \<Rightarrow> string"
  PyUnicode_FromString :: "string \<Rightarrow> pyerror + string"
  PyErr_undecodable :: "pyexc \<Rightarrow> pyerror \<Rightarrow> pyerror"

definition PyErr_SetString :: "'s engine \<Rightarrow> pyexc \<Rightarrow> string \<Rightarrow> pyerror" where
  \<comment> \<open>CPython decodes the message with \<open>PyUnicode_FromString\<close> before it sets the error\<close>
  "PyErr_SetString E exc message =
     (case PyUnicode_FromString E message of
        Inr value \<Rightarrow> (exc, value)
      | Inl e \<Rightarrow> PyErr_undecodable E exc e)"

definition KALDI_ERR :: "'s engine \<Rightarrow> string \<Rightarrow> 'a comp" where
  \<comment> \<open>the message goes to the log handler with severity \<open>kError\<close>, then an exception is thrown\<close>
  "KALDI_ERR E message = ([EvLog kError message], Throws (fatal_what E message))"

definition Find :: "symtab \<Rightarrow> int \<Rightarrow> string" where
  \<comment> \<open>\<open>fst::SymbolTable::Find(key)\<close>: the empty string when the key is not in the table\<close>
  "Find syms k = (case syms k of None \<Rightarrow> '''' | Some s \<Rightarrow> s)"

subsection \<open>The decoding routine\<close>

text \<open>
  The chunk loop, lines 125-144, from \<open>samp_offset\<close> on; \<open>dim\<close> is \<open>data.Dim()\<close>.
\<close>

definition chunk_length :: int where
  \<comment> \<open>line 123: \<open>std::numeric_limits<int32>::max()\<close>\<close>
  "chunk_length = 2147483647"

function feed_loop :: "'s engine \<Rightarrow> int \<Rightarrow> 's \<Rightarrow> int \<Rightarrow> 's comp" where
  "feed_loop E dim sess samp_offset =
     (if samp_offset < dim then
        let samp_remaining = dim - samp_offset;
            num_samp = (if chunk_length < samp_remaining then chunk_length else samp_remaining);
            samp_offset' = samp_offset + num_samp
        in
          bnd (call (EvAcceptWaveform samp_offset num_samp)
                 (AcceptWaveform E sess samp_offset num_samp)) (\<lambda>sess.
          bnd (tick (EvWaitUntil samp_offset')) (\<lambda>_.
          bnd (if samp_offset' = dim then call EvInputFinished (InputFinished E sess)
               else ret sess) (\<lambda>sess.
          bnd (call EvAdvanceDecoding (AdvanceDecoding E sess)) (\<lambda>sess.
          feed_loop E dim sess samp_offset'))))
      else ret sess)"
  by pat_completeness auto
termination
  by (relation "measure (\<lambda>(E, dim, sess, samp_offset). nat (dim - samp_offset))")
     (auto simp: chunk_length_def)

declare feed_loop.simps [simp del]

text \<open>The loop of lines 162-168; the last argument is \<open>result\<close> so far.\<close>

fun result_loop :: "'s engine \<Rightarrow> symtab \<Rightarrow> int list \<Rightarrow> string \<Rightarrow> string comp" where
  "result_loop E word_syms [] result = ret result"
| "result_loop E word_syms (w # words) result =
     (let s = Find word_syms w in
        if s = '''' then KALDI_ERR E (''Word-id '' @ show_int w @ '' not in symbol table.'')
        else result_loop E word_syms words (result @ s @ '' ''))"

text \<open>
  \<open>basic\<close> is written in three parts: \<open>basic_setup\<close> is lines 38-119 and returns what the
  rest uses (\<open>word_syms\<close>, \<open>data.Dim()\<close>, the session), \<open>feed_loop\<close> from offset 0 is
  lines 121-144, \<open>basic_finish\<close> is lines 145-172. The guard of line 99 compares
  \<open>datadir + "/words.txt"\<close> with the empty string and is always true, so
  \<open>word_syms\<close> is never null after line 102.
\<close>

definition basic_setup :: "'s engine \<Rightarrow> string \<Rightarrow> string \<Rightarrow> (symtab \<times> int \<times> 's) comp" where
  "basic_setup E wavfile datadir =
     (let word_syms_rxfilename = datadir @ ''/words.txt'';
          nnet3_rxfilename = datadir @ ''/final.mdl'';
          fst_rxfilename = datadir @ ''/HCLG.fst'';
          wav_rspecifier = ''scp:echo foo '' @ wavfile @ ''|''
      in
        bnd (tick EvSetLogHandler) (\<lambda>_.
        bnd (call (EvReadKaldiObject (datadir @ ''/final.mat''))
               (ReadKaldiObject E (datadir @ ''/final.mat''))) (\<lambda>_.
        bnd (call (EvReadKaldiObject (datadir @ ''/global_cmvn.stats''))
               (ReadKaldiObject E (datadir @ ''/global_cmvn.stats''))) (\<lambda>_.
        bnd (call (EvReadKaldiObject (datadir @ ''/final.dubm''))
               (ReadKaldiObject E (datadir @ ''/final.dubm''))) (\<lambda>_.
        bnd (call (EvReadKaldiObject (datadir @ ''/final.ie''))
               (ReadKaldiObject E (datadir @ ''/final.ie''))) (\<lambda>_.
        bnd (call (EvReadModel nnet3_rxfilename) (ReadModel E nnet3_rxfilename)) (\<lambda>_.
        bnd (call (EvReadFstKaldiGeneric fst_rxfilename)
               (ReadFstKaldiGeneric E fst_rxfilename)) (\<lambda>_.
        bnd (call (EvReadText word_syms_rxfilename) (ReadText E word_syms_rxfilename)) (\<lambda>r.
        bnd (case r of
               None \<Rightarrow> KALDI_ERR E (''Could not read symbol table from file '' @ word_syms_rxfilename)
             | Some t \<Rightarrow> ret t) (\<lambda>word_syms.
        bnd (call (EvWavReader wav_rspecifier) (WavReader E wav_rspecifier)) (\<lambda>_.
        bnd (call EvAdaptationState (AdaptationState E)) (\<lambda>_.
        bnd (call EvWavValue (WavValue E wav_rspecifier)) (\<lambda>dim.
        bnd (call EvNewSession (NewSession E)) (\<lambda>sess.
        ret (word_syms, dim, sess)))))))))))))))"

definition basic_finish :: "'s engine \<Rightarrow> symtab \<Rightarrow> 's \<Rightarrow> string comp" where
  "basic_finish E word_syms sess =
     bnd (call EvFinalizeDecoding (FinalizeDecoding E sess)) (\<lambda>sess.
     bnd (call EvBestPath (BestPath E sess)) (\<lambda>words.
     bnd (result_loop E word_syms words '''') (\<lambda>result.
     bnd (tick EvDelete_decode_fst) (\<lambda>_.
     bnd (tick EvDelete_word_syms) (\<lambda>_.
     ret result)))))"

definition basic :: "'s engine \<Rightarrow> string \<Rightarrow> string \<Rightarrow> string comp" where
  "basic E wavfile datadir =
     bnd (basic_setup E wavfile datadir) (\<lambda>(word_syms, dim, sess).
     bnd (feed_loop E dim sess 0) (\<lambda>sess.
     basic_finish E word_syms sess))"

subsection \<open>The Python entry point\<close>

text \<open>
  \<open>pstate\<close> is what outlives a call: the global \<open>errlog\<close>, what has been written to
  \<open>std::cerr\<close>, and the events so far (a record of the run, not a variable of the
  program). \<open>pyresult\<close> is what the caller gets: the returned object (\<open>None\<close> for
  \<open>NULL\<close>) and the error raised, if any: the error that \<open>PyErr_SetString\<close> sets on
  line 193 (the exception class with the decoded message, or what CPython leaves when
  the message is not valid UTF-8), or the error a CPython call has set by itself.
  \<open>pyargs\<close> is the outcome of
  \<open>PyArg_ParseTuple\<close> on line 180: the two strings, or the error CPython has set.
\<close>

record pstate =
  errlog :: string
  cerr :: string
  history :: "event list"

record pyresult =
  retval :: "string option"
  raised :: "pyerror option"

datatype pyargs = BadArgs pyerror | Args string string

fun run_handler :: "event list \<Rightarrow> string \<Rightarrow> string" where
  "run_handler [] buf = buf"
| "run_handler (EvLog sev message # tr) buf = run_handler tr (trap sev message buf)"
| "run_handler (_ # tr) buf = run_handler tr buf"

definition decode :: "'s engine \<Rightarrow> pyargs \<Rightarrow> pstate \<Rightarrow> pyresult \<times> pstate" where
  "decode E args s =
     (case args of
        BadArgs e \<Rightarrow> (\<lparr>retval = None, raised = Some e\<rparr>, s)
      | Args wavfile datadir \<Rightarrow>
          (case basic E wavfile datadir of
             (tr, r) \<Rightarrow>
               let s1 = s\<lparr>errlog := run_handler tr (errlog s), history := history s @ tr\<rparr> in
                 (case r of
                    Returns result \<Rightarrow>
                      (case PyUnicode_FromString E (c_str result) of
                         Inr u \<Rightarrow> (\<lparr>retval = Some u, raised = None\<rparr>, s1)
                       | Inl e \<Rightarrow> (\<lparr>retval = None, raised = Some e\<rparr>, s1))
                  | Throws what \<Rightarrow>
                      (\<lparr>retval = None,
                         raised = Some (PyErr_SetString E RuntimeError (c_str (errlog s1)))\<rparr>,
                       s1\<lparr>cerr := cerr s1 @ what\<rparr>))))"

subsection \<open>Reading a history\<close>

fun captured :: "event list \<Rightarrow> string" where
  \<comment> \<open>the text of the error and assertion messages among the events, in order\<close>
  "captured [] = ''''"
| "captured (EvLog sev message # tr) =
     (if sev = kError \<or> sev = kAssertFailed then message else '''') @ captured tr"
| "captured (_ # tr) = captured tr"

fun is_log :: "event \<Rightarrow> bool" where
  "is_log (EvLog sev message) = True"
| "is_log _ = False"

fun is_accept :: "event \<Rightarrow> bool" where
  "is_accept (EvAcceptWaveform samp_offset num_samp) = True"
| "is_accept _ = False"

fun is_wait :: "event \<Rightarrow> bool" where
  "is_wait (EvWaitUntil samp_offset) = True"
| "is_wait _ = False"

fun final_chunk :: "int \<Rightarrow> event \<Rightarrow> bool" where
  \<comment> \<open>the submission of the chunk that ends at the last sample\<close>
  "final_chunk dim (EvAcceptWaveform samp_offset num_samp) = (samp_offset + num_samp = dim)"
| "final_chunk dim _ = False"

definition calls :: "event list \<Rightarrow> event list" where
  \<comment> \<open>the library calls of a history, without the messages logged in between\<close>
  "calls tr = filter (\<lambda>e. \<not> is_log e) tr"

subsection \<open>A concrete engine\<close>

text \<open>
  A small model directory and its failure modes, for evaluating the definitions:
  a three-word vocabulary, a best path \<open>foo bar\<close> for any non-empty audio and an empty
  one for \<open>empty.wav\<close>; the directory \<open>missing\<close> has no \<open>final.mat\<close>, \<open>corrupt\<close> a
  damaged acoustic model, \<open>huge\<close> a model whose loading runs out of memory,
  \<open>gap\<close> a vocabulary without the id 2, \<open>latin\<close> a damaged acoustic model whose error
  message holds the byte \<open>0xFF\<close>, and \<open>bytes\<close> a vocabulary whose word 2 holds that
  byte. The session state counts the samples accepted. A C string decodes unless it
  holds the byte \<open>0xFF\<close>, which is never valid in UTF-8; an undecodable message leaves
  the decoding error.
\<close>

definition vocab :: symtab where
  "vocab = [1 \<mapsto> ''foo'', 2 \<mapsto> ''bar'', 3 \<mapsto> ''baz'']"

definition demo :: "int engine" where
  "demo = \<lparr>
     ReadKaldiObject = (\<lambda>f.
       if f = ''missing/final.mat''
       then ([(kError, ''Failed to open missing/final.mat'')], Throws ''kaldi::KaldiFatalError'')
       else ([], Returns ())),
     ReadModel = (\<lambda>f.
       if f = ''corrupt/final.mdl''
       then ([(kWarning, ''odd header''), (kError, ''Bad model header'')],
             Throws ''kaldi::KaldiFatalError'')
       else if f = ''huge/final.mdl'' then ([], Throws ''std::bad_alloc'')
       else if f = ''latin/final.mdl''
       then ([(kError, [CHR ''b'', CHR ''a'', CHR ''d'', CHR 0xFF])],
             Throws ''kaldi::KaldiFatalError'')
       else ([], Returns ())),
     ReadFstKaldiGeneric = (\<lambda>f. ([], Returns ())),
     ReadText = (\<lambda>f.
       if f = ''gap/words.txt'' then ([], Returns (Some (vocab(2 := None))))
       else if f = ''bytes/words.txt''
       then ([], Returns (Some (vocab(2 \<mapsto> [CHR 0xFF]))))
       else ([], Returns (Some vocab))),
     WavReader = (\<lambda>f. ([], Returns ())),
     AdaptationState = ([], Returns ()),
     WavValue = (\<lambda>f.
       if f = ''scp:echo foo empty.wav|'' then ([], Returns 0) else ([], Returns 16000)),
     NewSession = ([], Returns 0),
     AcceptWaveform = (\<lambda>sess samp_offset num_samp. ([], Returns (sess + num_samp))),
     InputFinished = (\<lambda>sess. ([], Returns sess)),
     AdvanceDecoding = (\<lambda>sess. ([], Returns sess)),
     FinalizeDecoding = (\<lambda>sess. ([], Returns sess)),
     BestPath = (\<lambda>sess. ([], Returns (if sess = 0 then [] else [1, 2]))),
     fatal_what = (\<lambda>message. ''kaldi::KaldiFatalError''),
     PyUnicode_FromString = (\<lambda>s.
       if CHR 0xFF \<in> set s then Inl (UnicodeDecodeError, ''invalid start byte'') else Inr s),
     PyErr_undecodable = (\<lambda>exc e. e) \<rparr>"

definition s0 :: pstate where
  \<comment> \<open>a fresh process: nothing logged, nothing written\<close>
  "s0 = \<lparr>errlog = '''', cerr = '''', history = []\<rparr>"

subsection \<open>The phases of a call, for the proofs\<close>

text \<open>
  \<open>basic\<close> runs in three phases: the set-up (lines 38-119), the chunk loop
  (lines 121-144) and the finish (lines 145-172). Each phase has its own kinds of event;
  a logged message can occur in any of them. \<open>feed_chunk\<close> is one pass through the body
  of the loop.
\<close>

fun setup_ev :: "event \<Rightarrow> bool" where
  "setup_ev EvSetLogHandler = True"
| "setup_ev (EvReadKaldiObject f) = True"
| "setup_ev (EvReadModel f) = True"
| "setup_ev (EvReadFstKaldiGeneric f) = True"
| "setup_ev (EvReadText f) = True"
| "setup_ev (EvWavReader f) = True"
| "setup_ev EvAdaptationState = True"
| "setup_ev EvWavValue = True"
| "setup_ev EvNewSession = True"
| "setup_ev (EvLog sev message) = True"
| "setup_ev _ = False"

fun feed_ev :: "event \<Rightarrow> bool" where
  "feed_ev (EvAcceptWaveform samp_offset num_samp) = True"
| "feed_ev (EvWaitUntil samp_offset) = True"
| "feed_ev EvInputFinished = True"
| "feed_ev EvAdvanceDecoding = True"
| "feed_ev (EvLog sev message) = True"
| "feed_ev _ = False"

fun finish_ev :: "event \<Rightarrow> bool" where
  "finish_ev EvFinalizeDecoding = True"
| "finish_ev EvBestPath = True"
| "finish_ev EvDelete_decode_fst = True"
| "finish_ev EvDelete_word_syms = True"
| "finish_ev (EvLog sev message) = True"
| "finish_ev _ = False"

definition num_samp_of :: "int \<Rightarrow> int \<Rightarrow> int" where
  "num_samp_of dim samp_offset =
     (if chunk_length < dim - samp_offset then chunk_length else dim - samp_offset)"

definition feed_chunk :: "'s engine \<Rightarrow> int \<Rightarrow> 's \<Rightarrow> int \<Rightarrow> 's comp" where
  "feed_chunk E dim sess samp_offset =
     (let num_samp = num_samp_of dim samp_offset in
        bnd (call (EvAcceptWaveform samp_offset num_samp)
               (AcceptWaveform E sess samp_offset num_samp)) (\<lambda>sess.
        bnd (tick (EvWaitUntil (samp_offset + num_samp))) (\<lambda>_.
        bnd (if samp_offset + num_samp = dim then call EvInputFinished (InputFinished E sess)
             else ret sess) (\<lambda>sess.
        call EvAdvanceDecoding (AdvanceDecoding E sess)))))"

section \<open>Sequencing\<close>

lemma bnd_ret [simp]: "bnd (ret x) f = f x"
  by (simp add: bnd_def ret_def split: prod.splits)

lemma fst_bnd: "fst (bnd m f) = fst m @ (case snd m of Returns x \<Rightarrow> fst (f x) | Throws what \<Rightarrow> [])"
  by (cases m) (simp add: bnd_def split: prod.splits outcome.splits)

lemma snd_bnd: "snd (bnd m f) = (case snd m of Returns x \<Rightarrow> snd (f x) | Throws what \<Rightarrow> Throws what)"
  by (cases m) (simp add: bnd_def split: prod.splits outcome.splits)

lemma bnd_assoc: "bnd (bnd m f) g = bnd m (\<lambda>x. bnd (f x) g)"
  by (cases m; cases "snd m") (auto simp: bnd_def split: prod.splits outcome.splits)

lemma all_bnd:
  "\<forall>e \<in> set (fst m). P e \<Longrightarrow> (\<And>x. \<forall>e \<in> set (fst (f x)). P e) \<Longrightarrow> \<forall>e \<in> set (fst (bnd m f)). P e"
  by (auto simp: fst_bnd split: outcome.splits)

lemma all_call:
  "P ev \<Longrightarrow> (\<And>sev message. P (EvLog sev message)) \<Longrightarrow> \<forall>e \<in> set (fst (call ev r)). P e"
  by (auto simp: call_def)

lemma all_tick: "P ev \<Longrightarrow> \<forall>e \<in> set (fst (tick ev)). P e"
  by (simp add: tick_def)

lemma all_ret: "\<forall>e \<in> set (fst (ret x)). P e"
  by (simp add: ret_def)

section \<open>The handler and the buffer\<close>

lemma run_handler_captured: "run_handler tr buf = buf @ captured tr"
  by (induction tr buf rule: run_handler.induct) (auto simp: trap_def split: severity.splits)

lemma decode_errlog: "errlog (snd (decode E (Args w d) s)) = errlog s @ captured (fst (basic E w d))"
  by (simp add: decode_def Let_def run_handler_captured split: prod.splits outcome.splits sum.splits)

lemma decode_throws:
  "snd (basic E w d) = Throws what \<Longrightarrow>
   decode E (Args w d) s =
     (\<lparr>retval = None,
        raised = Some (PyErr_SetString E RuntimeError
                   (c_str (errlog s @ captured (fst (basic E w d)))))\<rparr>,
      s\<lparr>errlog := errlog s @ captured (fst (basic E w d)), history := history s @ fst (basic E w d),
        cerr := cerr s @ what\<rparr>)"
  by (cases "basic E w d") (simp add: decode_def Let_def run_handler_captured)

lemma decode_undecodable_result:
  "snd (basic E w d) = Returns result \<Longrightarrow> PyUnicode_FromString E (c_str result) = Inl e \<Longrightarrow>
   fst (decode E (Args w d) s) = \<lparr>retval = None, raised = Some e\<rparr>"
  by (cases "basic E w d") (simp add: decode_def Let_def)

lemma PyErr_SetString_decoded:
  "PyUnicode_FromString E message = Inr value \<Longrightarrow> PyErr_SetString E exc message = (exc, value)"
  by (simp add: PyErr_SetString_def)

lemma PyErr_SetString_undecoded:
  "PyUnicode_FromString E message = Inl e \<Longrightarrow>
   PyErr_SetString E exc message = PyErr_undecodable E exc e"
  by (simp add: PyErr_SetString_def)

section \<open>The concrete engine, evaluated\<close>

lemmas run_defs = decode_def basic_def basic_setup_def basic_finish_def bnd_def call_def tick_def
  ret_def KALDI_ERR_def Find_def c_str_def chunk_length_def trap_def demo_def vocab_def s0_def
  show_int_def digit_char_def feed_loop.simps PyErr_SetString_def

lemma show_int_2: "show_int 2 = ''2''"
  by (simp add: show_int_def digit_char_def)

lemma basic_demo_missing:
  "basic demo ''utt.wav'' ''missing'' =
     ([EvSetLogHandler, EvReadKaldiObject ''missing/final.mat'',
       EvLog kError ''Failed to open missing/final.mat''], Throws ''kaldi::KaldiFatalError'')"
  by (simp add: run_defs)

lemma basic_demo_corrupt:
  "basic demo ''utt.wav'' ''corrupt'' =
     ([EvSetLogHandler, EvReadKaldiObject ''corrupt/final.mat'',
       EvReadKaldiObject ''corrupt/global_cmvn.stats'', EvReadKaldiObject ''corrupt/final.dubm'',
       EvReadKaldiObject ''corrupt/final.ie'', EvReadModel ''corrupt/final.mdl'',
       EvLog kWarning ''odd header'', EvLog kError ''Bad model header''],
      Throws ''kaldi::KaldiFatalError'')"
  by (simp add: run_defs)

lemma basic_demo_huge:
  "basic demo ''utt.wav'' ''huge'' =
     ([EvSetLogHandler, EvReadKaldiObject ''huge/final.mat'',
       EvReadKaldiObject ''huge/global_cmvn.stats'', EvReadKaldiObject ''huge/final.dubm'',
       EvReadKaldiObject ''huge/final.ie'', EvReadModel ''huge/final.mdl''],
      Throws ''std::bad_alloc'')"
  by (simp add: run_defs)

lemma basic_demo_latin:
  "basic demo ''utt.wav'' ''latin'' =
     ([EvSetLogHandler, EvReadKaldiObject ''latin/final.mat'',
       EvReadKaldiObject ''latin/global_cmvn.stats'', EvReadKaldiObject ''latin/final.dubm'',
       EvReadKaldiObject ''latin/final.ie'', EvReadModel ''latin/final.mdl'',
       EvLog kError [CHR ''b'', CHR ''a'', CHR ''d'', CHR 0xFF]],
      Throws ''kaldi::KaldiFatalError'')"
  by (simp add: run_defs)

lemma basic_demo_bytes:
  "snd (basic demo ''utt.wav'' ''bytes'') =
     Returns [CHR ''f'', CHR ''o'', CHR ''o'', CHR '' '', CHR 0xFF, CHR '' '']"
  by (simp add: run_defs)

lemma demo_decodes:
  "PyUnicode_FromString demo '''' = Inr ''''"
  "PyUnicode_FromString demo ''Bad model header'' = Inr ''Bad model header''"
  "PyUnicode_FromString demo ''Bad model headerBad model header'' =
     Inr ''Bad model headerBad model header''"
  "PyUnicode_FromString demo ''Failed to open missing/final.matBad model header'' =
     Inr ''Failed to open missing/final.matBad model header''"
  "PyUnicode_FromString demo [CHR ''b'', CHR ''a'', CHR ''d'', CHR 0xFF] =
     Inl (UnicodeDecodeError, ''invalid start byte'')"
  "PyUnicode_FromString demo
       [CHR ''f'', CHR ''o'', CHR ''o'', CHR '' '', CHR 0xFF, CHR '' ''] =
     Inl (UnicodeDecodeError, ''invalid start byte'')"
  by (simp_all add: demo_def)

section \<open>Result extraction (lines 162-168)\<close>

lemma result_loop_good:
  "\<forall>w \<in> set words. Find word_syms w \<noteq> '''' \<Longrightarrow>
   result_loop E word_syms words acc = ([], Returns (acc @ concat (map (\<lambda>w. Find word_syms w @ '' '') words)))"
  by (induction words arbitrary: acc) (simp_all add: ret_def Let_def)

lemma result_loop_bad:
  "\<forall>v \<in> set pre. Find word_syms v \<noteq> '''' \<Longrightarrow> Find word_syms w = '''' \<Longrightarrow>
   result_loop E word_syms (pre @ w # post) acc =
     ([EvLog kError (''Word-id '' @ show_int w @ '' not in symbol table.'')],
      Throws (fatal_what E (''Word-id '' @ show_int w @ '' not in symbol table.'')))"
  by (induction pre arbitrary: acc) (simp_all add: KALDI_ERR_def Let_def)

lemma result_loop_Returns:
  "snd (result_loop E word_syms words acc) = Returns r \<Longrightarrow>
   (\<forall>w \<in> set words. Find word_syms w \<noteq> '''') \<and> r = acc @ concat (map (\<lambda>w. Find word_syms w @ '' '') words)"
proof (induction words arbitrary: acc)
  case Nil
  then show ?case by (simp add: ret_def)
next
  case (Cons a words)
  show ?case
  proof (cases "Find word_syms a = []")
    case True
    with Cons.prems show ?thesis by (simp add: KALDI_ERR_def)
  next
    case False
    with Cons.prems Cons.IH [of "acc @ Find word_syms a @ [CHR 0x20]"] show ?thesis
      by simp
  qed
qed

lemma first_bad:
  "\<exists>w \<in> set words. P w \<Longrightarrow> \<exists>pre w post. words = pre @ w # post \<and> P w \<and> (\<forall>v \<in> set pre. \<not> P v)"
  by (metis split_list_first_prop)

text \<open>
  C5. The extraction loop looks up every id of the best path in path order. When every
  id has a display string, it returns the strings in that order, each followed by one
  space. It returns a text only in that case, and the text is then made of the
  vocabulary's own strings. When some id of the path is not in the vocabulary, it logs
  the error \<open>Word-id N not in symbol table.\<close> for an id \<open>N\<close> of the path without a
  display string and throws: no text is produced, nothing is skipped or substituted.
\<close>

theorem result_extraction:
  "((\<forall>w \<in> set words. Find word_syms w \<noteq> '''') \<longrightarrow>
      result_loop E word_syms words '''' =
        ([], Returns (concat (map (\<lambda>w. Find word_syms w @ '' '') words))))
   \<and> (\<forall>r. snd (result_loop E word_syms words '''') = Returns r \<longrightarrow>
        (\<forall>w \<in> set words. word_syms w \<noteq> None) \<and>
        r = concat (map (\<lambda>w. the (word_syms w) @ '' '') words))
   \<and> ((\<exists>w \<in> set words. word_syms w = None) \<longrightarrow>
        (\<exists>w \<in> set words. Find word_syms w = '''' \<and>
           result_loop E word_syms words '''' =
             ([EvLog kError (''Word-id '' @ show_int w @ '' not in symbol table.'')],
              Throws (fatal_what E (''Word-id '' @ show_int w @ '' not in symbol table.'')))))"
proof (intro conjI impI allI)
  assume "\<forall>w \<in> set words. Find word_syms w \<noteq> ''''"
  then show "result_loop E word_syms words '''' =
        ([], Returns (concat (map (\<lambda>w. Find word_syms w @ '' '') words)))"
    using result_loop_good [of words word_syms E "''''"] by simp
next
  fix r assume r: "snd (result_loop E word_syms words '''') = Returns r"
  from result_loop_Returns [OF r]
  have all: "\<forall>w \<in> set words. Find word_syms w \<noteq> ''''"
    and req: "r = concat (map (\<lambda>w. Find word_syms w @ '' '') words)" by simp_all
  from all show "\<forall>w \<in> set words. word_syms w \<noteq> None"
    by (auto simp: Find_def split: option.splits)
  have "map (\<lambda>w. Find word_syms w @ '' '') words = map (\<lambda>w. the (word_syms w) @ '' '') words"
    using all by (auto simp: Find_def split: option.splits)
  with req show "r = concat (map (\<lambda>w. the (word_syms w) @ '' '') words)" by simp
next
  assume "\<exists>w \<in> set words. word_syms w = None"
  then have "\<exists>w \<in> set words. Find word_syms w = ''''"
    by (force simp: Find_def)
  from first_bad [of words "\<lambda>w. Find word_syms w = ''''", OF this]
  obtain pre w post where w: "words = pre @ w # post" "Find word_syms w = ''''"
    "\<forall>v \<in> set pre. Find word_syms v \<noteq> ''''" by blast
  from result_loop_bad [OF w(3) w(2), of E post "''''"] w(1) w(2)
  show "\<exists>w \<in> set words. Find word_syms w = '''' \<and>
           result_loop E word_syms words '''' =
             ([EvLog kError (''Word-id '' @ show_int w @ '' not in symbol table.'')],
              Throws (fatal_what E (''Word-id '' @ show_int w @ '' not in symbol table.'')))"
    by auto
qed

theorem result_extraction_witness:
  "(Find vocab 1 \<noteq> '''' \<and> Find vocab 2 \<noteq> '''')
   \<and> result_loop demo vocab [1, 2] '''' = ([], Returns ''foo bar '')
   \<and> (vocab(2 := None)) 2 = None
   \<and> result_loop demo (vocab(2 := None)) [1, 2, 3] '''' =
        ([EvLog kError ''Word-id 2 not in symbol table.''], Throws ''kaldi::KaldiFatalError'')"
proof -
  have good: "\<forall>w \<in> set [1, 2]. Find vocab w \<noteq> ''''"
    by (simp add: Find_def vocab_def)
  have bad: "\<exists>w \<in> set [1, 2, 3]. (vocab(2 := None)) w = None"
    by simp
  have f1: "Find (vocab(2 := None)) 1 = ''foo''" and f3: "Find (vocab(2 := None)) 3 = ''baz''"
    by (simp_all add: Find_def vocab_def)
  from result_extraction [of "[1, 2]" vocab demo] good
  have a: "result_loop demo vocab [1, 2] '''' = ([], Returns ''foo bar '')"
    by (simp add: Find_def vocab_def)
  from result_extraction [of "[1, 2, 3]" "vocab(2 := None)" demo] bad
  have "\<exists>w \<in> set [1, 2, 3]. Find (vocab(2 := None)) w = '''' \<and>
           result_loop demo (vocab(2 := None)) [1, 2, 3] '''' =
             ([EvLog kError (''Word-id '' @ show_int w @ '' not in symbol table.'')],
              Throws (fatal_what demo (''Word-id '' @ show_int w @ '' not in symbol table.'')))"
    by blast
  then have b: "result_loop demo (vocab(2 := None)) [1, 2, 3] '''' =
        ([EvLog kError ''Word-id 2 not in symbol table.''], Throws ''kaldi::KaldiFatalError'')"
    using f1 f3 by (auto simp: show_int_2 demo_def)
  from good a b show ?thesis by simp
qed

text \<open>
  C10. An id whose display string is the empty string is treated as an id that is not
  in the table: the loop behaves the same on both tables, and when such an id is
  reached (every id before it having a display string) the loop logs
  \<open>Word-id N not in symbol table.\<close> for it and throws, although the id is present.
\<close>

theorem empty_display_string:
  "result_loop E (word_syms(w \<mapsto> '''')) words acc = result_loop E (word_syms(w := None)) words acc
   \<and> ((\<forall>v \<in> set pre. v \<noteq> w \<and> Find word_syms v \<noteq> '''') \<longrightarrow>
        result_loop E (word_syms(w \<mapsto> '''')) (pre @ w # post) acc =
          ([EvLog kError (''Word-id '' @ show_int w @ '' not in symbol table.'')],
           Throws (fatal_what E (''Word-id '' @ show_int w @ '' not in symbol table.''))))"
proof (intro conjI impI)
  have "Find (word_syms(w \<mapsto> '''')) = Find (word_syms(w := None))"
    by (rule ext) (simp add: Find_def)
  then show "result_loop E (word_syms(w \<mapsto> '''')) words acc = result_loop E (word_syms(w := None)) words acc"
    by (induction words arbitrary: acc) (simp_all add: Let_def)
next
  assume pre: "\<forall>v \<in> set pre. v \<noteq> w \<and> Find word_syms v \<noteq> ''''"
  then have "\<forall>v \<in> set pre. Find (word_syms(w \<mapsto> '''')) v \<noteq> ''''"
    by (simp add: Find_def)
  moreover have "Find (word_syms(w \<mapsto> '''')) w = ''''"
    by (simp add: Find_def)
  ultimately show "result_loop E (word_syms(w \<mapsto> '''')) (pre @ w # post) acc =
          ([EvLog kError (''Word-id '' @ show_int w @ '' not in symbol table.'')],
           Throws (fatal_what E (''Word-id '' @ show_int w @ '' not in symbol table.'')))"
    by (rule result_loop_bad)
qed

theorem empty_display_string_witness:
  "(1 \<noteq> (2::int) \<and> Find vocab 1 \<noteq> '''')
   \<and> (vocab(2 \<mapsto> '''')) 2 = Some ''''
   \<and> result_loop demo (vocab(2 \<mapsto> '''')) [1, 2, 3] '''' =
        ([EvLog kError ''Word-id 2 not in symbol table.''], Throws ''kaldi::KaldiFatalError'')
   \<and> result_loop demo (vocab(2 \<mapsto> '''')) [1, 2, 3] '''' = result_loop demo (vocab(2 := None)) [1, 2, 3] ''''"
proof -
  have pre: "\<forall>v \<in> set [1]. v \<noteq> (2::int) \<and> Find vocab v \<noteq> ''''"
    by (simp add: Find_def vocab_def)
  from empty_display_string [of demo vocab 2 "[1, 2, 3]" "''''" "[1]" "[3]"] pre
  show ?thesis
    by (simp add: show_int_2 demo_def Find_def vocab_def)
qed

section \<open>The entry point (lines 175-196)\<close>

text \<open>
  C6. Whatever the arguments, the engine and the state of the process, \<open>decode\<close> returns
  a string exactly when it raises no error: never a string together with an error,
  never neither. In particular a raised error comes with the return value \<open>NULL\<close>.
\<close>

theorem decode_string_xor_error:
  "(retval (fst (decode E args s)) = None) = (raised (fst (decode E args s)) \<noteq> None)"
  by (simp add: decode_def Let_def split: pyargs.splits prod.splits outcome.splits sum.splits)

text \<open>
  C1, as the claim states it, fails: after a failing call the buffer still holds the
  message of that call, and the error of the next failing call starts with it.
\<close>

theorem errlog_leak_counterexample:
  "errlog (snd (decode demo (Args ''utt.wav'' ''missing'') s0)) \<noteq> ''''
   \<and> errlog (snd (decode demo (Args ''utt.wav'' ''missing'') s0)) = ''Failed to open missing/final.mat''
   \<and> raised (fst (decode demo (Args ''utt.wav'' ''corrupt'')
                  (snd (decode demo (Args ''utt.wav'' ''missing'') s0)))) =
       Some (RuntimeError, ''Failed to open missing/final.matBad model header'')"
  by (simp add: run_defs)

text \<open>
  C1, amended. Nothing clears \<open>errlog\<close>. A call that fails in argument parsing leaves
  the buffer as it is; after any other call the buffer holds what it held before the
  call followed by the error and assertion messages logged during the call. When an
  exception leaves \<open>basic\<close> in the call that follows, line 193 hands \<open>PyErr_SetString\<close>
  the buffer after both calls (up to its first NUL): the content before the first call,
  the messages of the first call, then those of the second. When that text decodes as
  UTF-8, the error raised is a \<open>RuntimeError\<close> with it as the message.
\<close>

theorem errlog_accumulates:
  "errlog (snd (decode E (Args w1 d1) s)) = errlog s @ captured (fst (basic E w1 d1))
   \<and> errlog (snd (decode E (BadArgs e0) s)) = errlog s
   \<and> (snd (basic E w2 d2) = Throws what \<longrightarrow>
        raised (fst (decode E (Args w2 d2) (snd (decode E (Args w1 d1) s)))) =
          Some (PyErr_SetString E RuntimeError
            (c_str (errlog s @ captured (fst (basic E w1 d1)) @ captured (fst (basic E w2 d2)))))
        \<and> (\<forall>u. PyUnicode_FromString E
                 (c_str (errlog s @ captured (fst (basic E w1 d1)) @ captured (fst (basic E w2 d2)))) =
               Inr u \<longrightarrow>
             raised (fst (decode E (Args w2 d2) (snd (decode E (Args w1 d1) s)))) =
               Some (RuntimeError, u)))"
proof (intro conjI impI allI)
  show "errlog (snd (decode E (Args w1 d1) s)) = errlog s @ captured (fst (basic E w1 d1))"
    by (rule decode_errlog)
  show "errlog (snd (decode E (BadArgs e0) s)) = errlog s"
    by (simp add: decode_def)
next
  assume t: "snd (basic E w2 d2) = Throws what"
  show r: "raised (fst (decode E (Args w2 d2) (snd (decode E (Args w1 d1) s)))) =
          Some (PyErr_SetString E RuntimeError
            (c_str (errlog s @ captured (fst (basic E w1 d1)) @ captured (fst (basic E w2 d2)))))"
    by (simp add: decode_throws [OF t] decode_errlog)
  fix u
  assume "PyUnicode_FromString E
      (c_str (errlog s @ captured (fst (basic E w1 d1)) @ captured (fst (basic E w2 d2)))) = Inr u"
  then show "raised (fst (decode E (Args w2 d2) (snd (decode E (Args w1 d1) s)))) =
      Some (RuntimeError, u)"
    by (simp add: r PyErr_SetString_decoded)
qed

theorem errlog_accumulates_witness:
  "snd (basic demo ''utt.wav'' ''corrupt'') = Throws ''kaldi::KaldiFatalError''
   \<and> PyUnicode_FromString demo ''Failed to open missing/final.matBad model header'' =
       Inr ''Failed to open missing/final.matBad model header''
   \<and> errlog (snd (decode demo (Args ''utt.wav'' ''missing'') s0)) = ''Failed to open missing/final.mat''
   \<and> raised (fst (decode demo (Args ''utt.wav'' ''corrupt'')
                  (snd (decode demo (Args ''utt.wav'' ''missing'') s0)))) =
       Some (RuntimeError, ''Failed to open missing/final.matBad model header'')"
  using errlog_accumulates [of demo "''utt.wav''" "''missing''" s0 "(TypeError, ''bad arguments'')" "''utt.wav''" "''corrupt''"
      "''kaldi::KaldiFatalError''"]
  by (simp add: basic_demo_missing basic_demo_corrupt s0_def c_str_def demo_decodes
      PyErr_SetString_decoded)

text \<open>
  C2, as the claim states it, fails: when a library call throws without logging
  anything and the buffer is empty, the error raised has the empty string as its
  message, not a placeholder.
\<close>

theorem empty_sink_counterexample:
  "retval (fst (decode demo (Args ''utt.wav'' ''huge'') s0)) = None
   \<and> raised (fst (decode demo (Args ''utt.wav'' ''huge'') s0)) = Some (RuntimeError, '''')"
  by (simp add: run_defs)

text \<open>
  C2, amended. A call of \<open>decode\<close> fails in one of three ways. When an exception leaves
  \<open>basic\<close>, \<open>decode\<close> returns \<open>NULL\<close> and hands \<open>PyErr_SetString\<close> the whole buffer at
  that moment (up to its first NUL): what \<open>errlog\<close> held before the call followed by the
  error and assertion messages logged during the call. When that text decodes as UTF-8,
  the error raised is a \<open>RuntimeError\<close> with it as the message, the empty string when
  the buffer is empty; when it does not decode, the error raised is the one CPython
  leaves for an undecodable message. When \<open>basic\<close> returns a text that does not decode,
  or the arguments do not parse, \<open>decode\<close> returns \<open>NULL\<close> with the error CPython has
  set, which does not come from the buffer.
\<close>

theorem decode_error_message:
  "(snd (basic E w d) = Throws what \<longrightarrow>
      retval (fst (decode E (Args w d) s)) = None
      \<and> raised (fst (decode E (Args w d) s)) =
          Some (PyErr_SetString E RuntimeError (c_str (errlog s @ captured (fst (basic E w d)))))
      \<and> (\<forall>u. PyUnicode_FromString E (c_str (errlog s @ captured (fst (basic E w d)))) = Inr u \<longrightarrow>
            raised (fst (decode E (Args w d) s)) = Some (RuntimeError, u))
      \<and> (\<forall>e. PyUnicode_FromString E (c_str (errlog s @ captured (fst (basic E w d)))) = Inl e \<longrightarrow>
            raised (fst (decode E (Args w d) s)) = Some (PyErr_undecodable E RuntimeError e))
      \<and> (errlog s = '''' \<and> captured (fst (basic E w d)) = '''' \<and>
           PyUnicode_FromString E '''' = Inr '''' \<longrightarrow>
            raised (fst (decode E (Args w d) s)) = Some (RuntimeError, '''')))
   \<and> (\<forall>result e. snd (basic E w d) = Returns result \<and>
          PyUnicode_FromString E (c_str result) = Inl e \<longrightarrow>
            fst (decode E (Args w d) s) = \<lparr>retval = None, raised = Some e\<rparr>)
   \<and> fst (decode E (BadArgs e0) s) = \<lparr>retval = None, raised = Some e0\<rparr>
   \<and> (retval (fst (decode E (Args w d) s)) = None \<longrightarrow>
        (\<exists>what. snd (basic E w d) = Throws what) \<or>
        (\<exists>result e. snd (basic E w d) = Returns result \<and>
           PyUnicode_FromString E (c_str result) = Inl e))"
proof (intro conjI impI allI)
  assume t: "snd (basic E w d) = Throws what"
  show "retval (fst (decode E (Args w d) s)) = None"
    by (simp add: decode_throws [OF t])
  show r: "raised (fst (decode E (Args w d) s)) =
      Some (PyErr_SetString E RuntimeError (c_str (errlog s @ captured (fst (basic E w d)))))"
    by (simp add: decode_throws [OF t])
  show "raised (fst (decode E (Args w d) s)) = Some (RuntimeError, u)"
    if "PyUnicode_FromString E (c_str (errlog s @ captured (fst (basic E w d)))) = Inr u" for u
    using that by (simp add: r PyErr_SetString_decoded)
  show "raised (fst (decode E (Args w d) s)) = Some (PyErr_undecodable E RuntimeError e)"
    if "PyUnicode_FromString E (c_str (errlog s @ captured (fst (basic E w d)))) = Inl e" for e
    using that by (simp add: r PyErr_SetString_undecoded)
  show "raised (fst (decode E (Args w d) s)) = Some (RuntimeError, '''')"
    if "errlog s = '''' \<and> captured (fst (basic E w d)) = '''' \<and>
        PyUnicode_FromString E '''' = Inr ''''"
    using that by (simp add: r c_str_def PyErr_SetString_decoded)
next
  fix result e
  assume "snd (basic E w d) = Returns result \<and> PyUnicode_FromString E (c_str result) = Inl e"
  then show "fst (decode E (Args w d) s) = \<lparr>retval = None, raised = Some e\<rparr>"
    by (simp add: decode_undecodable_result)
next
  show "fst (decode E (BadArgs e0) s) = \<lparr>retval = None, raised = Some e0\<rparr>"
    by (simp add: decode_def)
next
  assume "retval (fst (decode E (Args w d) s)) = None"
  then show "(\<exists>what. snd (basic E w d) = Throws what) \<or>
        (\<exists>result e. snd (basic E w d) = Returns result \<and>
           PyUnicode_FromString E (c_str result) = Inl e)"
    by (cases "basic E w d"; cases "snd (basic E w d)")
       (auto simp: decode_def Let_def split: sum.splits)
qed

theorem decode_error_message_witness:
  "snd (basic demo ''utt.wav'' ''corrupt'') = Throws ''kaldi::KaldiFatalError''
   \<and> PyUnicode_FromString demo ''Bad model header'' = Inr ''Bad model header''
   \<and> retval (fst (decode demo (Args ''utt.wav'' ''corrupt'') s0)) = None
   \<and> raised (fst (decode demo (Args ''utt.wav'' ''corrupt'') s0)) = Some (RuntimeError, ''Bad model header'')
   \<and> snd (basic demo ''utt.wav'' ''huge'') = Throws ''std::bad_alloc''
   \<and> errlog s0 = '''' \<and> captured (fst (basic demo ''utt.wav'' ''huge'')) = ''''
   \<and> PyUnicode_FromString demo '''' = Inr ''''
   \<and> raised (fst (decode demo (Args ''utt.wav'' ''huge'') s0)) = Some (RuntimeError, '''')
   \<and> snd (basic demo ''utt.wav'' ''latin'') = Throws ''kaldi::KaldiFatalError''
   \<and> PyUnicode_FromString demo [CHR ''b'', CHR ''a'', CHR ''d'', CHR 0xFF] =
       Inl (UnicodeDecodeError, ''invalid start byte'')
   \<and> raised (fst (decode demo (Args ''utt.wav'' ''latin'') s0)) =
       Some (UnicodeDecodeError, ''invalid start byte'')
   \<and> snd (basic demo ''utt.wav'' ''bytes'') =
       Returns [CHR ''f'', CHR ''o'', CHR ''o'', CHR '' '', CHR 0xFF, CHR '' '']
   \<and> PyUnicode_FromString demo
       [CHR ''f'', CHR ''o'', CHR ''o'', CHR '' '', CHR 0xFF, CHR '' ''] =
       Inl (UnicodeDecodeError, ''invalid start byte'')
   \<and> fst (decode demo (Args ''utt.wav'' ''bytes'') s0) =
       \<lparr>retval = None, raised = Some (UnicodeDecodeError, ''invalid start byte'')\<rparr>"
proof -
  have c: "c_str ''Bad model header'' = ''Bad model header''"
    "c_str [CHR ''b'', CHR ''a'', CHR ''d'', CHR 0xFF] =
       [CHR ''b'', CHR ''a'', CHR ''d'', CHR 0xFF]"
    "c_str [CHR ''f'', CHR ''o'', CHR ''o'', CHR '' '', CHR 0xFF, CHR '' ''] =
       [CHR ''f'', CHR ''o'', CHR ''o'', CHR '' '', CHR 0xFF, CHR '' '']"
    "c_str '''' = ''''"
    by (simp_all add: c_str_def)
  have u: "PyErr_undecodable demo RuntimeError (UnicodeDecodeError, ''invalid start byte'') =
      (UnicodeDecodeError, ''invalid start byte'')"
    by (simp add: demo_def)
  note t1 = decode_error_message [of demo "''utt.wav''" "''corrupt''" "''kaldi::KaldiFatalError''" s0
      "(TypeError, ''bad arguments'')"]
  note t2 = decode_error_message [of demo "''utt.wav''" "''huge''" "''std::bad_alloc''" s0
      "(TypeError, ''bad arguments'')"]
  note t3 = decode_error_message [of demo "''utt.wav''" "''latin''" "''kaldi::KaldiFatalError''" s0
      "(TypeError, ''bad arguments'')"]
  note t4 = decode_error_message [of demo "''utt.wav''" "''bytes''" "''none''" s0
      "(TypeError, ''bad arguments'')"]
  from t1 have a: "raised (fst (decode demo (Args ''utt.wav'' ''corrupt'') s0)) =
      Some (RuntimeError, ''Bad model header'')"
    by (simp add: basic_demo_corrupt s0_def c demo_decodes PyErr_SetString_decoded)
  from t2 have b: "raised (fst (decode demo (Args ''utt.wav'' ''huge'') s0)) = Some (RuntimeError, '''')"
    by (simp add: basic_demo_huge s0_def c demo_decodes PyErr_SetString_decoded)
  from t3 have l: "raised (fst (decode demo (Args ''utt.wav'' ''latin'') s0)) =
      Some (UnicodeDecodeError, ''invalid start byte'')"
    by (simp add: basic_demo_latin s0_def c demo_decodes u PyErr_SetString_undecoded)
  from t4 have y: "fst (decode demo (Args ''utt.wav'' ''bytes'') s0) =
      \<lparr>retval = None, raised = Some (UnicodeDecodeError, ''invalid start byte'')\<rparr>"
    by (simp add: basic_demo_bytes c demo_decodes)
  from t1 have n: "retval (fst (decode demo (Args ''utt.wav'' ''corrupt'') s0)) = None"
    by (simp add: basic_demo_corrupt)
  from a b l y n show ?thesis
    by (simp add: basic_demo_corrupt basic_demo_huge basic_demo_latin basic_demo_bytes s0_def
        demo_decodes)
qed




text \<open>
  C8, at a failing input. With a damaged acoustic model the message of the engine goes
  to the handler and into the error raised, and the \<open>what()\<close> of the exception is
  written to \<open>std::cerr\<close> by line 192.
\<close>

theorem what_written_to_cerr:
  "raised (fst (decode demo (Args ''utt.wav'' ''corrupt'') s0)) = Some (RuntimeError, ''Bad model header'')
   \<and> cerr (snd (decode demo (Args ''utt.wav'' ''corrupt'') s0)) = ''kaldi::KaldiFatalError''"
  by (simp add: run_defs)

section \<open>The phases and their events\<close>

lemma word_syms_rxfilename_nonempty: "datadir @ ''/words.txt'' \<noteq> ''''"
  by simp

lemma setup_events: "\<forall>e \<in> set (fst (basic_setup E wavfile datadir)). setup_ev e"
  unfolding basic_setup_def Let_def
  by (intro all_bnd all_call all_tick all_ret) (simp_all add: KALDI_ERR_def ret_def split: option.splits)

lemma feed_loop_step:
  "samp_offset < dim \<Longrightarrow>
   feed_loop E dim sess samp_offset =
     bnd (feed_chunk E dim sess samp_offset)
       (\<lambda>sess'. feed_loop E dim sess' (samp_offset + num_samp_of dim samp_offset))"
  by (subst feed_loop.simps) (simp add: feed_chunk_def num_samp_of_def Let_def bnd_assoc)

lemma feed_loop_done: "\<not> samp_offset < dim \<Longrightarrow> feed_loop E dim sess samp_offset = ret sess"
  by (subst feed_loop.simps) simp

lemma num_samp_pos: "samp_offset < dim \<Longrightarrow> 0 < num_samp_of dim samp_offset"
  by (simp add: num_samp_of_def chunk_length_def)

lemma num_samp_le: "samp_offset < dim \<Longrightarrow> samp_offset + num_samp_of dim samp_offset \<le> dim"
  by (simp add: num_samp_of_def chunk_length_def)

lemma chunk_events: "\<forall>e \<in> set (fst (feed_chunk E dim sess samp_offset)). feed_ev e"
  unfolding feed_chunk_def Let_def
  by (intro all_bnd all_call all_tick all_ret) (auto simp: call_def ret_def)

lemma loop_events: "\<forall>e \<in> set (fst (feed_loop E dim sess samp_offset)). feed_ev e"
proof (induction "nat (dim - samp_offset)" arbitrary: samp_offset sess rule: less_induct)
  case less
  show ?case
  proof (cases "samp_offset < dim")
    case True
    have "\<forall>e \<in> set (fst (feed_loop E dim s' (samp_offset + num_samp_of dim samp_offset))). feed_ev e" for s'
      using True num_samp_pos [OF True] by (intro less) simp
    then show ?thesis
      unfolding feed_loop_step [OF True] by (intro all_bnd chunk_events) simp
  next
    case False
    then show ?thesis by (simp add: feed_loop_done ret_def)
  qed
qed

lemma result_loop_events: "\<forall>e \<in> set (fst (result_loop E word_syms words acc)). finish_ev e"
  by (induction words arbitrary: acc) (simp_all add: ret_def KALDI_ERR_def Let_def)

lemma finish_events: "\<forall>e \<in> set (fst (basic_finish E word_syms sess)). finish_ev e"
  unfolding basic_finish_def
  by (intro all_bnd all_call all_tick all_ret result_loop_events) simp_all

lemma setup_ev_simps:
  "setup_ev e \<Longrightarrow> \<not> is_accept e \<and> \<not> is_wait e \<and> e \<noteq> EvInputFinished \<and> e \<noteq> EvAdvanceDecoding
     \<and> e \<noteq> EvFinalizeDecoding \<and> \<not> final_chunk dim e"
  by (cases e) simp_all

lemma feed_ev_simps: "feed_ev e \<Longrightarrow> e \<noteq> EvFinalizeDecoding"
  by (cases e) simp_all

lemma finish_ev_simps:
  "finish_ev e \<Longrightarrow> \<not> is_accept e \<and> \<not> is_wait e \<and> e \<noteq> EvInputFinished \<and> e \<noteq> EvAdvanceDecoding
     \<and> \<not> final_chunk dim e"
  by (cases e) simp_all

lemma basic_trace:
  "fst (basic E wavfile datadir) =
     fst (basic_setup E wavfile datadir) @
     (case snd (basic_setup E wavfile datadir) of
        Throws what \<Rightarrow> []
      | Returns (word_syms, dim, sess) \<Rightarrow>
          fst (feed_loop E dim sess 0) @
          (case snd (feed_loop E dim sess 0) of
             Throws what \<Rightarrow> []
           | Returns sess' \<Rightarrow> fst (basic_finish E word_syms sess')))"
  by (simp add: basic_def fst_bnd split: outcome.splits prod.splits)

lemma basic_outcome:
  "snd (basic E wavfile datadir) =
     (case snd (basic_setup E wavfile datadir) of
        Throws what \<Rightarrow> Throws what
      | Returns (word_syms, dim, sess) \<Rightarrow>
          (case snd (feed_loop E dim sess 0) of
             Throws what \<Rightarrow> Throws what
           | Returns sess' \<Rightarrow> snd (basic_finish E word_syms sess')))"
  by (simp add: basic_def snd_bnd split: outcome.splits prod.splits)

lemma setup_dim:
  "snd (basic_setup E wavfile datadir) = Returns (word_syms, dim, sess) \<Longrightarrow>
   snd (WavValue E (''scp:echo foo '' @ wavfile @ ''|'')) = Returns dim"
  by (simp add: basic_setup_def Let_def snd_bnd call_def tick_def ret_def KALDI_ERR_def
      split: outcome.splits option.splits)

lemma finish_head:
  "\<exists>post. fst (basic_finish E word_syms sess) = EvFinalizeDecoding # post"
  by (simp add: basic_finish_def fst_bnd call_def)

lemma finish_empty_path:
  "snd (FinalizeDecoding E sess) = Returns sess' \<Longrightarrow> snd (BestPath E sess') = Returns [] \<Longrightarrow>
   snd (basic_finish E word_syms sess) = Returns ''''"
  by (simp add: basic_finish_def snd_bnd call_def tick_def ret_def)

section \<open>Audio without samples\<close>

text \<open>
  C3, as the claim states it, fails: for audio without samples the call succeeds with
  the empty text, the search is finalized, and end-of-input has not been signalled at
  all.
\<close>

theorem zero_length_counterexample:
  "snd (WavValue demo (''scp:echo foo '' @ ''empty.wav'' @ ''|'')) = Returns 0
   \<and> fst (decode demo (Args ''empty.wav'' ''model'') s0) = \<lparr>retval = Some '''', raised = None\<rparr>
   \<and> EvFinalizeDecoding \<in> set (history (snd (decode demo (Args ''empty.wav'' ''model'') s0)))
   \<and> EvInputFinished \<notin> set (history (snd (decode demo (Args ''empty.wav'' ''model'') s0)))
   \<and> count_list (history (snd (decode demo (Args ''empty.wav'' ''model'') s0))) EvInputFinished \<noteq> 1"
  by (simp add: run_defs)

text \<open>
  C3, amended. When the audio has no samples, the body of the chunk loop never runs:
  no waveform is submitted, no pacing wait and no search advance happen, and
  end-of-input is not signalled. Once the set-up has returned, the next call is the
  finalization of the search; when finalization returns and the best path has no words,
  \<open>basic\<close> returns the empty text. The call of \<open>decode\<close> yields a text or an error, one
  of the two.
\<close>

theorem zero_length_audio:
  assumes dim: "snd (WavValue E (''scp:echo foo '' @ wavfile @ ''|'')) = Returns 0"
  shows "(\<forall>e \<in> set (fst (basic E wavfile datadir)).
            \<not> is_accept e \<and> \<not> is_wait e \<and> e \<noteq> EvInputFinished \<and> e \<noteq> EvAdvanceDecoding)
     \<and> (\<forall>word_syms sess. snd (basic_setup E wavfile datadir) = Returns (word_syms, 0, sess) \<longrightarrow>
           (\<exists>post. fst (basic E wavfile datadir) =
              fst (basic_setup E wavfile datadir) @ EvFinalizeDecoding # post)
           \<and> (\<forall>sess'. snd (FinalizeDecoding E sess) = Returns sess' \<and> snd (BestPath E sess') = Returns [] \<longrightarrow>
                 snd (basic E wavfile datadir) = Returns ''''))
     \<and> (retval (fst (decode E (Args wavfile datadir) s)) = None) =
         (raised (fst (decode E (Args wavfile datadir) s)) \<noteq> None)"
proof (intro conjI allI impI ballI)
  fix e assume e: "e \<in> set (fst (basic E wavfile datadir))"
  show "\<not> is_accept e" "\<not> is_wait e" "e \<noteq> EvInputFinished" "e \<noteq> EvAdvanceDecoding"
  proof -
    have "setup_ev e \<or> finish_ev e"
    proof (cases "snd (basic_setup E wavfile datadir)")
      case (Throws what)
      with e setup_events [of E wavfile datadir] show ?thesis
        by (simp add: basic_trace)
    next
      case (Returns x)
      obtain word_syms d sess where x: "x = (word_syms, d, sess)" by (cases x)
      from setup_dim [of E wavfile datadir word_syms d sess] Returns x dim have d: "d = 0" by simp
      from e Returns x d setup_events [of E wavfile datadir] finish_events [of E word_syms sess]
      show ?thesis
        by (auto simp: basic_trace feed_loop_done ret_def)
    qed
    then show "\<not> is_accept e" "\<not> is_wait e" "e \<noteq> EvInputFinished" "e \<noteq> EvAdvanceDecoding"
      using setup_ev_simps [of e] finish_ev_simps [of e] by auto
  qed
next
  fix word_syms sess
  assume r: "snd (basic_setup E wavfile datadir) = Returns (word_syms, 0, sess)"
  from finish_head [of E word_syms sess] obtain post where
    "fst (basic_finish E word_syms sess) = EvFinalizeDecoding # post" ..
  with r show "\<exists>post. fst (basic E wavfile datadir) =
              fst (basic_setup E wavfile datadir) @ EvFinalizeDecoding # post"
    by (simp add: basic_trace feed_loop_done ret_def)
next
  fix word_syms sess sess'
  assume r: "snd (basic_setup E wavfile datadir) = Returns (word_syms, 0, sess)"
    and f: "snd (FinalizeDecoding E sess) = Returns sess' \<and> snd (BestPath E sess') = Returns []"
  from f finish_empty_path [of E sess sess' word_syms]
  have "snd (basic_finish E word_syms sess) = Returns ''''" by simp
  with r show "snd (basic E wavfile datadir) = Returns ''''"
    by (simp add: basic_outcome feed_loop_done ret_def)
next
  show "(retval (fst (decode E (Args wavfile datadir) s)) = None) =
         (raised (fst (decode E (Args wavfile datadir) s)) \<noteq> None)"
    by (simp add: decode_def Let_def split: prod.splits outcome.splits sum.splits)
qed

lemma setup_demo_empty:
  "snd (basic_setup demo ''empty.wav'' ''model'') = Returns (vocab, 0, 0)"
  by (simp add: run_defs)

theorem zero_length_audio_witness:
  "snd (WavValue demo (''scp:echo foo '' @ ''empty.wav'' @ ''|'')) = Returns 0
   \<and> EvInputFinished \<notin> set (fst (basic demo ''empty.wav'' ''model''))
   \<and> EvFinalizeDecoding \<in> set (fst (basic demo ''empty.wav'' ''model''))
   \<and> snd (basic demo ''empty.wav'' ''model'') = Returns ''''"
proof -
  have dim: "snd (WavValue demo (''scp:echo foo '' @ ''empty.wav'' @ ''|'')) = Returns 0"
    by (simp add: demo_def)
  have fin: "snd (FinalizeDecoding demo 0) = Returns 0 \<and> snd (BestPath demo 0) = Returns []"
    by (simp add: demo_def)
  note z = zero_length_audio [OF dim, of "''model''" s0]
  from z have a: "EvInputFinished \<notin> set (fst (basic demo ''empty.wav'' ''model''))"
    by blast
  from z setup_demo_empty have b: "\<exists>post. fst (basic demo ''empty.wav'' ''model'') =
      fst (basic_setup demo ''empty.wav'' ''model'') @ EvFinalizeDecoding # post"
    by blast
  from z setup_demo_empty fin have c: "snd (basic demo ''empty.wav'' ''model'') = Returns ''''"
    by blast
  from b have "EvFinalizeDecoding \<in> set (fst (basic demo ''empty.wav'' ''model''))"
    by auto
  with dim a c show ?thesis by simp
qed

section \<open>The order of the session calls\<close>

lemma fst_call: "fst (call ev r) = ev # map (\<lambda>(sev, message). EvLog sev message) (fst r)"
  by (simp add: call_def)

lemma snd_call: "snd (call ev r) = snd r"
  by (simp add: call_def)

lemma takeWhile_logs:
  "takeWhile (\<lambda>e. e \<noteq> EvInputFinished) (map (\<lambda>(sev, message). EvLog sev message) l @ ys) =
     map (\<lambda>(sev, message). EvLog sev message) l @ takeWhile (\<lambda>e. e \<noteq> EvInputFinished) ys"
  by (induction l) auto

lemma calls_logs: "calls (map (\<lambda>(sev, message). EvLog sev message) l) = []"
  by (induction l) (auto simp: calls_def)

lemma calls_Nil: "calls [] = []"
  by (simp add: calls_def)

lemma calls_append: "calls (xs @ ys) = calls xs @ calls ys"
  by (simp add: calls_def)

lemma calls_Cons: "calls (e # xs) = (if is_log e then calls xs else e # calls xs)"
  by (simp add: calls_def)

lemma chunk_nonfinal:
  "samp_offset + num_samp_of dim samp_offset \<noteq> dim \<Longrightarrow>
   \<forall>e \<in> set (fst (feed_chunk E dim sess samp_offset)). \<not> final_chunk dim e"
  unfolding feed_chunk_def Let_def
  by (intro all_bnd all_call all_tick all_ret) (auto simp: call_def ret_def)

lemma chunk_final:
  assumes "samp_offset + num_samp_of dim samp_offset = dim"
    and "\<forall>what. snd (feed_chunk E dim sess samp_offset) = Throws what \<longrightarrow> X = []"
  shows "\<exists>tl. fst (feed_chunk E dim sess samp_offset) = EvAcceptWaveform samp_offset (num_samp_of dim samp_offset) # tl"
    and "EvAdvanceDecoding \<notin> set (takeWhile (\<lambda>e. e \<noteq> EvInputFinished) (fst (feed_chunk E dim sess samp_offset) @ X))"
  using assms
  by (auto simp: feed_chunk_def Let_def fst_bnd snd_bnd fst_call snd_call tick_def takeWhile_logs
      split: outcome.splits)

lemma chunk_final_calls:
  "samp_offset + num_samp_of dim samp_offset = dim \<Longrightarrow>
   snd (feed_chunk E dim sess samp_offset) = Returns sess' \<Longrightarrow>
   calls (fst (feed_chunk E dim sess samp_offset)) =
     [EvAcceptWaveform samp_offset (num_samp_of dim samp_offset), EvWaitUntil dim,
      EvInputFinished, EvAdvanceDecoding]"
  by (auto simp: feed_chunk_def Let_def fst_bnd snd_bnd fst_call snd_call tick_def
      calls_append calls_Cons calls_logs split: outcome.splits)

lemma loop_flushes:
  assumes "\<forall>e \<in> set R. \<not> final_chunk dim e"
  shows "(\<forall>what. snd (feed_loop E dim sess samp_offset) = Throws what \<longrightarrow> R = []) \<Longrightarrow>
     EvAdvanceDecoding \<notin> set (takeWhile (\<lambda>e. e \<noteq> EvInputFinished)
        (dropWhile (\<lambda>e. \<not> final_chunk dim e) (fst (feed_loop E dim sess samp_offset) @ R)))"
proof (induction "nat (dim - samp_offset)" arbitrary: samp_offset sess rule: less_induct)
  case less
  let ?P = "\<lambda>e. \<not> final_chunk dim e"
  let ?n = "num_samp_of dim samp_offset"
  let ?C = "feed_chunk E dim sess samp_offset"
  show ?case
  proof (cases "samp_offset < dim")
    case False
    from assms have d: "dropWhile ?P R = []" by simp
    from False show ?thesis by (simp add: feed_loop_done ret_def d)
  next
    case True
    note step = feed_loop_step [OF True, of E sess]
    show ?thesis
    proof (cases "samp_offset + ?n = dim")
      case final: True
      have rest: "feed_loop E dim s' (samp_offset + ?n) = ret s'" for s'
        using final by (simp add: feed_loop_done)
      have thr: "\<forall>what. snd ?C = Throws what \<longrightarrow> R = []"
        using less.prems by (auto simp: step snd_bnd)
      from chunk_final(1) [OF final thr] obtain tl where
        tl: "fst ?C = EvAcceptWaveform samp_offset ?n # tl" ..
      have tr: "fst (feed_loop E dim sess samp_offset) @ R = fst ?C @ R"
        by (simp add: step fst_bnd rest ret_def split: outcome.splits)
      have "dropWhile ?P (fst ?C @ R) = fst ?C @ R"
        using final by (simp add: tl)
      with chunk_final(2) [OF final thr] tr show ?thesis by simp
    next
      case nonfinal: False
      have skip: "dropWhile ?P (fst ?C @ Y) = dropWhile ?P Y" for Y
        using chunk_nonfinal [OF nonfinal, of E sess] by (simp add: dropWhile_append2)
      show ?thesis
      proof (cases "snd ?C")
        case (Throws what)
        then have R: "R = []" using less.prems by (simp add: step snd_bnd)
        have d: "dropWhile ?P (fst ?C) = []"
          using chunk_nonfinal [OF nonfinal, of E sess] by simp
        from Throws show ?thesis by (simp add: step fst_bnd R d)
      next
        case (Returns s')
        have m: "nat (dim - (samp_offset + ?n)) < nat (dim - samp_offset)"
          using True num_samp_pos [OF True] by simp
        have thr: "\<forall>what. snd (feed_loop E dim s' (samp_offset + ?n)) = Throws what \<longrightarrow> R = []"
          using less.prems Returns by (simp add: step snd_bnd)
        from less.hyps [OF m thr] Returns show ?thesis
          by (simp add: step fst_bnd skip)
      qed
    qed
  qed
qed

lemma loop_calls:
  "samp_offset < dim \<Longrightarrow> snd (feed_loop E dim sess samp_offset) = Returns sess' \<Longrightarrow>
   \<exists>pre off n. calls (fst (feed_loop E dim sess samp_offset)) =
       pre @ [EvAcceptWaveform off n, EvWaitUntil dim, EvInputFinished, EvAdvanceDecoding]
     \<and> off + n = dim"
proof (induction "nat (dim - samp_offset)" arbitrary: samp_offset sess rule: less_induct)
  case less
  let ?n = "num_samp_of dim samp_offset"
  let ?C = "feed_chunk E dim sess samp_offset"
  note step = feed_loop_step [OF less.prems(1), of E sess]
  from less.prems(2) obtain s' where c: "snd ?C = Returns s'"
    and r: "snd (feed_loop E dim s' (samp_offset + ?n)) = Returns sess'"
    by (auto simp: step snd_bnd split: outcome.splits)
  have tr: "fst (feed_loop E dim sess samp_offset) = fst ?C @ fst (feed_loop E dim s' (samp_offset + ?n))"
    using c by (simp add: step fst_bnd)
  show ?case
  proof (cases "samp_offset + ?n = dim")
    case True
    from chunk_final_calls [OF True c] True tr
    have "calls (fst (feed_loop E dim sess samp_offset)) =
        [] @ [EvAcceptWaveform samp_offset ?n, EvWaitUntil dim, EvInputFinished, EvAdvanceDecoding]"
      by (simp add: calls_append feed_loop_done ret_def calls_Nil)
    with True show ?thesis by blast
  next
    case False
    with num_samp_le [OF less.prems(1)] have lt: "samp_offset + ?n < dim" by simp
    have m: "nat (dim - (samp_offset + ?n)) < nat (dim - samp_offset)"
      using less.prems(1) num_samp_pos [OF less.prems(1)] by simp
    from less.hyps [OF m lt r] obtain pre off n where
      "calls (fst (feed_loop E dim s' (samp_offset + ?n))) =
         pre @ [EvAcceptWaveform off n, EvWaitUntil dim, EvInputFinished, EvAdvanceDecoding]"
      "off + n = dim" by blast
    then have "calls (fst (feed_loop E dim sess samp_offset)) =
        (calls (fst ?C) @ pre) @ [EvAcceptWaveform off n, EvWaitUntil dim, EvInputFinished, EvAdvanceDecoding]
        \<and> off + n = dim"
      by (simp add: tr calls_append)
    then show ?thesis by blast
  qed
qed

lemma result_loop_Returns_trace:
  "snd (result_loop E word_syms words acc) = Returns r \<Longrightarrow> fst (result_loop E word_syms words acc) = []"
  using result_loop_Returns [of E word_syms words acc r] result_loop_good [of words word_syms E acc]
  by simp

lemma finish_calls:
  "snd (basic_finish E word_syms sess) = Returns r \<Longrightarrow>
   calls (fst (basic_finish E word_syms sess)) =
     [EvFinalizeDecoding, EvBestPath, EvDelete_decode_fst, EvDelete_word_syms]"
  by (auto simp: basic_finish_def fst_bnd snd_bnd fst_call snd_call tick_def ret_def
      calls_append calls_Cons calls_logs calls_Nil result_loop_Returns_trace split: outcome.splits)

lemma basic_demo_model:
  "basic demo ''utt.wav'' ''model'' =
     ([EvSetLogHandler, EvReadKaldiObject ''model/final.mat'',
       EvReadKaldiObject ''model/global_cmvn.stats'', EvReadKaldiObject ''model/final.dubm'',
       EvReadKaldiObject ''model/final.ie'', EvReadModel ''model/final.mdl'',
       EvReadFstKaldiGeneric ''model/HCLG.fst'', EvReadText ''model/words.txt'',
       EvWavReader ''scp:echo foo utt.wav|'', EvAdaptationState, EvWavValue, EvNewSession,
       EvAcceptWaveform 0 16000, EvWaitUntil 16000, EvInputFinished, EvAdvanceDecoding,
       EvFinalizeDecoding, EvBestPath, EvDelete_decode_fst, EvDelete_word_syms],
      Returns ''foo bar '')"
  by (simp add: run_defs)

text \<open>
  C4. Let the audio have \<open>dim\<close> samples. In every run of \<open>basic\<close>, whichever calls
  fail: from the submission of the final chunk (the one that ends at sample \<open>dim\<close>) on,
  no search advance happens before end-of-input has been signalled; and from the
  finalization of the search on, no waveform is submitted and no search advance happens.
  When the audio is not empty and \<open>basic\<close> returns, its library calls end with: the
  submission of the final chunk, the pacing wait, the end-of-input signal, the search
  advance, the finalization, the best path and the two releases, so the last search
  advance comes right after the end-of-input signal.
\<close>

theorem end_of_input_before_last_advance:
  assumes dim: "snd (WavValue E (''scp:echo foo '' @ wavfile @ ''|'')) = Returns dim"
  shows "EvAdvanceDecoding \<notin> set (takeWhile (\<lambda>e. e \<noteq> EvInputFinished)
            (dropWhile (\<lambda>e. \<not> final_chunk dim e) (fst (basic E wavfile datadir))))
     \<and> (\<forall>e \<in> set (dropWhile (\<lambda>e. e \<noteq> EvFinalizeDecoding) (fst (basic E wavfile datadir))).
           \<not> is_accept e \<and> e \<noteq> EvAdvanceDecoding)
     \<and> (0 < dim \<longrightarrow> (\<forall>r. snd (basic E wavfile datadir) = Returns r \<longrightarrow>
           (\<exists>pre off n. calls (fst (basic E wavfile datadir)) =
               pre @ [EvAcceptWaveform off n, EvWaitUntil dim, EvInputFinished, EvAdvanceDecoding,
                      EvFinalizeDecoding, EvBestPath, EvDelete_decode_fst, EvDelete_word_syms]
             \<and> off + n = dim)))"
proof (cases "snd (basic_setup E wavfile datadir)")
  case (Throws what)
  let ?A = "fst (basic_setup E wavfile datadir)"
  from Throws have tr: "fst (basic E wavfile datadir) = ?A" and out: "snd (basic E wavfile datadir) = Throws what"
    by (simp_all add: basic_trace basic_outcome)
  have "\<forall>e \<in> set ?A. \<not> final_chunk dim e" and nf: "\<forall>e \<in> set ?A. e \<noteq> EvFinalizeDecoding"
    using setup_events [of E wavfile datadir] setup_ev_simps by blast+
  then have d1: "dropWhile (\<lambda>e. \<not> final_chunk dim e) ?A = []" by simp
  from nf have d2: "dropWhile (\<lambda>e. e \<noteq> EvFinalizeDecoding) ?A = []" by simp
  show ?thesis by (simp add: tr out d1 d2)
next
  case (Returns x)
  obtain word_syms d sess where x: "x = (word_syms, d, sess)" by (cases x)
  from setup_dim [of E wavfile datadir word_syms d sess] Returns x dim have d: "d = dim" by simp
  let ?A = "fst (basic_setup E wavfile datadir)"
  let ?L = "feed_loop E dim sess 0"
  let ?R = "case snd ?L of Throws what \<Rightarrow> [] | Returns sess' \<Rightarrow> fst (basic_finish E word_syms sess')"
  from Returns x d have tr: "fst (basic E wavfile datadir) = ?A @ fst ?L @ ?R"
    by (simp add: basic_trace)
  from Returns x d have out: "snd (basic E wavfile datadir) =
      (case snd ?L of Throws what \<Rightarrow> Throws what | Returns sess' \<Rightarrow> snd (basic_finish E word_syms sess'))"
    by (simp add: basic_outcome)
  have A1: "\<forall>e \<in> set ?A. \<not> final_chunk dim e" and A2: "\<forall>e \<in> set ?A. e \<noteq> EvFinalizeDecoding"
    using setup_events [of E wavfile datadir] setup_ev_simps by blast+
  have L2: "\<forall>e \<in> set (fst ?L). e \<noteq> EvFinalizeDecoding"
    using loop_events [of E dim sess 0] feed_ev_simps by blast
  have R0: "\<forall>e \<in> set ?R. finish_ev e"
    using finish_events [of E word_syms] by (cases "snd ?L") simp_all
  have R1: "\<forall>e \<in> set ?R. \<not> final_chunk dim e"
    using R0 finish_ev_simps by blast
  have R2: "\<forall>what. snd ?L = Throws what \<longrightarrow> ?R = []"
    by simp
  have p1: "EvAdvanceDecoding \<notin> set (takeWhile (\<lambda>e. e \<noteq> EvInputFinished)
            (dropWhile (\<lambda>e. \<not> final_chunk dim e) (fst (basic E wavfile datadir))))"
    using loop_flushes [OF R1 R2] A1 by (simp add: tr dropWhile_append2)
  have "dropWhile (\<lambda>e. e \<noteq> EvFinalizeDecoding) (fst (basic E wavfile datadir)) =
      dropWhile (\<lambda>e. e \<noteq> EvFinalizeDecoding) ?R"
    using A2 L2 by (simp add: tr dropWhile_append2)
  then have p2: "\<forall>e \<in> set (dropWhile (\<lambda>e. e \<noteq> EvFinalizeDecoding) (fst (basic E wavfile datadir))).
           \<not> is_accept e \<and> e \<noteq> EvAdvanceDecoding"
    using R0 finish_ev_simps by (metis set_dropWhileD)
  have p3: "\<exists>pre off n. calls (fst (basic E wavfile datadir)) =
               pre @ [EvAcceptWaveform off n, EvWaitUntil dim, EvInputFinished, EvAdvanceDecoding,
                      EvFinalizeDecoding, EvBestPath, EvDelete_decode_fst, EvDelete_word_syms]
             \<and> off + n = dim"
    if pos: "0 < dim" and r: "snd (basic E wavfile datadir) = Returns r" for r
  proof -
    from r out obtain sess' where l: "snd ?L = Returns sess'"
      and f: "snd (basic_finish E word_syms sess') = Returns r"
      by (auto split: outcome.splits)
    from loop_calls [OF pos l] obtain pre off n where
      c: "calls (fst ?L) = pre @ [EvAcceptWaveform off n, EvWaitUntil dim, EvInputFinished, EvAdvanceDecoding]"
      and n: "off + n = dim" by blast
    have "calls (fst (basic E wavfile datadir)) =
        (calls ?A @ pre) @ [EvAcceptWaveform off n, EvWaitUntil dim, EvInputFinished, EvAdvanceDecoding,
                      EvFinalizeDecoding, EvBestPath, EvDelete_decode_fst, EvDelete_word_syms]"
      by (simp add: tr l calls_append c finish_calls [OF f])
    with n show ?thesis by blast
  qed
  from p1 p2 p3 show ?thesis by blast
qed

theorem end_of_input_before_last_advance_witness:
  "snd (WavValue demo (''scp:echo foo '' @ ''utt.wav'' @ ''|'')) = Returns 16000
   \<and> (0::int) < 16000
   \<and> snd (basic demo ''utt.wav'' ''model'') = Returns ''foo bar ''
   \<and> EvAdvanceDecoding \<notin> set (takeWhile (\<lambda>e. e \<noteq> EvInputFinished)
        (dropWhile (\<lambda>e. \<not> final_chunk 16000 e) (fst (basic demo ''utt.wav'' ''model''))))
   \<and> (\<exists>pre off n. calls (fst (basic demo ''utt.wav'' ''model'')) =
         pre @ [EvAcceptWaveform off n, EvWaitUntil 16000, EvInputFinished, EvAdvanceDecoding,
                EvFinalizeDecoding, EvBestPath, EvDelete_decode_fst, EvDelete_word_syms]
       \<and> off + n = 16000)"
proof -
  have dim: "snd (WavValue demo (''scp:echo foo '' @ ''utt.wav'' @ ''|'')) = Returns 16000"
    by (simp add: demo_def)
  have r: "snd (basic demo ''utt.wav'' ''model'') = Returns ''foo bar ''"
    by (simp add: basic_demo_model)
  note t = end_of_input_before_last_advance [OF dim, of "''model''"]
  from t have a: "EvAdvanceDecoding \<notin> set (takeWhile (\<lambda>e. e \<noteq> EvInputFinished)
        (dropWhile (\<lambda>e. \<not> final_chunk 16000 e) (fst (basic demo ''utt.wav'' ''model''))))"
    by blast
  from t r have b: "\<exists>pre off n. calls (fst (basic demo ''utt.wav'' ''model'')) =
         pre @ [EvAcceptWaveform off n, EvWaitUntil 16000, EvInputFinished, EvAdvanceDecoding,
                EvFinalizeDecoding, EvBestPath, EvDelete_decode_fst, EvDelete_word_syms]
       \<and> off + n = 16000"
    by simp
  from dim r a b show ?thesis by simp
qed

section \<open>Release of the search graph and the symbol table\<close>

text \<open>
  A run of \<open>basic\<close> that throws never reaches the two \<open>delete\<close>s, wherever it throws;
  a run that returns ends with them.
\<close>

lemma setup_no_release:
  "setup_ev e \<or> feed_ev e \<Longrightarrow> e \<noteq> EvDelete_decode_fst \<and> e \<noteq> EvDelete_word_syms"
  by (cases e) simp_all

lemma result_loop_logs: "\<forall>e \<in> set (fst (result_loop E word_syms words acc)). is_log e"
  by (induction words arbitrary: acc) (simp_all add: ret_def KALDI_ERR_def Let_def)

lemma finish_throws_no_release:
  assumes "snd (basic_finish E word_syms sess) = Throws what"
  shows "EvDelete_decode_fst \<notin> set (fst (basic_finish E word_syms sess)) \<and>
     EvDelete_word_syms \<notin> set (fst (basic_finish E word_syms sess))"
proof -
  have "\<not> is_log EvDelete_decode_fst" "\<not> is_log EvDelete_word_syms" by simp_all
  then have "EvDelete_decode_fst \<notin> set (fst (result_loop E word_syms words []))"
    "EvDelete_word_syms \<notin> set (fst (result_loop E word_syms words []))" for words
    using result_loop_logs [of E word_syms words "[]"] by blast+
  with assms show ?thesis
    by (auto simp: basic_finish_def fst_bnd snd_bnd fst_call snd_call tick_def ret_def
        split: outcome.splits)
qed

lemma throwing_run_skips_release:
  assumes "snd (basic E wavfile datadir) = Throws what"
  shows "EvDelete_decode_fst \<notin> set (fst (basic E wavfile datadir)) \<and>
     EvDelete_word_syms \<notin> set (fst (basic E wavfile datadir))"
proof (cases "snd (basic_setup E wavfile datadir)")
  case (Throws w)
  with setup_events [of E wavfile datadir] setup_no_release show ?thesis
    by (fastforce simp: basic_trace)
next
  case (Returns x)
  obtain word_syms d sess where x: "x = (word_syms, d, sess)" by (cases x)
  show ?thesis
  proof (cases "snd (feed_loop E d sess 0)")
    case (Throws w)
    with Returns x setup_events [of E wavfile datadir] loop_events [of E d sess 0] setup_no_release
    show ?thesis
      by (fastforce simp: basic_trace)
  next
    case r: (Returns sess')
    with Returns x assms have "snd (basic_finish E word_syms sess') = Throws what"
      by (simp add: basic_outcome)
    from finish_throws_no_release [OF this] Returns x r
      setup_events [of E wavfile datadir] loop_events [of E d sess 0] setup_no_release
    show ?thesis
      by (fastforce simp: basic_trace)
  qed
qed

lemma returning_run_releases:
  assumes "snd (basic E wavfile datadir) = Returns r"
  shows "\<exists>pre. calls (fst (basic E wavfile datadir)) = pre @ [EvDelete_decode_fst, EvDelete_word_syms]"
proof -
  from assms obtain word_syms d sess sess' where
    s: "snd (basic_setup E wavfile datadir) = Returns (word_syms, d, sess)"
    and l: "snd (feed_loop E d sess 0) = Returns sess'"
    and f: "snd (basic_finish E word_syms sess') = Returns r"
    by (auto simp: basic_outcome split: outcome.splits prod.splits)
  have "calls (fst (basic E wavfile datadir)) =
      (calls (fst (basic_setup E wavfile datadir)) @ calls (fst (feed_loop E d sess 0)) @
       [EvFinalizeDecoding, EvBestPath]) @ [EvDelete_decode_fst, EvDelete_word_syms]"
    by (simp add: basic_trace s l calls_append finish_calls [OF f])
  then show ?thesis by blast
qed

text \<open>
  C7, at a failing input. With a vocabulary that lacks an id of the best path, the
  search graph and the symbol table have been read when the extraction loop throws, and
  neither \<open>delete\<close> of lines 170-171 is reached; on the successful call with the complete
  vocabulary both are.
\<close>

theorem release_skipped_on_failure:
  "retval (fst (decode demo (Args ''utt.wav'' ''gap'') s0)) = None
   \<and> EvReadFstKaldiGeneric ''gap/HCLG.fst'' \<in> set (history (snd (decode demo (Args ''utt.wav'' ''gap'') s0)))
   \<and> EvReadText ''gap/words.txt'' \<in> set (history (snd (decode demo (Args ''utt.wav'' ''gap'') s0)))
   \<and> EvDelete_decode_fst \<notin> set (history (snd (decode demo (Args ''utt.wav'' ''gap'') s0)))
   \<and> EvDelete_word_syms \<notin> set (history (snd (decode demo (Args ''utt.wav'' ''gap'') s0)))
   \<and> EvDelete_decode_fst \<in> set (history (snd (decode demo (Args ''utt.wav'' ''model'') s0)))
   \<and> EvDelete_word_syms \<in> set (history (snd (decode demo (Args ''utt.wav'' ''model'') s0)))"
  by (simp add: run_defs)

end
